theory Spec2Isabelle
  imports Main
begin

section \<open>JavaScript strings\<close>

text \<open>
  A JavaScript string is modelled as a \<^typ>\<open>string\<close>: one \<^typ>\<open>char\<close> per code unit,
  with the ASCII reading of letters, digits and white space. Case conversion maps the
  26 ASCII letters and leaves every other character as it is.
\<close>

definition ascii_upper :: string where
  "ascii_upper = ''ABCDEFGHIJKLMNOPQRSTUVWXYZ''"

definition ascii_lower :: string where
  "ascii_lower = ''abcdefghijklmnopqrstuvwxyz''"

definition ascii_digit :: string where
  "ascii_digit = ''0123456789''"

definition lower_char :: "char \<Rightarrow> char" where
  "lower_char c = (case map_of (zip ascii_upper ascii_lower) c of Some d \<Rightarrow> d | None \<Rightarrow> c)"

definition upper_char :: "char \<Rightarrow> char" where
  "upper_char c = (case map_of (zip ascii_lower ascii_upper) c of Some d \<Rightarrow> d | None \<Rightarrow> c)"

definition toLowerCase :: "string \<Rightarrow> string" where
  "toLowerCase s = map lower_char s"

definition toUpperCase :: "string \<Rightarrow> string" where
  "toUpperCase s = map upper_char s"

text \<open>The class \<open>\s\<close>: tab, line feed, vertical tab, form feed, carriage return, space.\<close>

definition is_space :: "char \<Rightarrow> bool" where
  "is_space c = (c \<in> set [CHR 0x09, CHR 0x0A, CHR 0x0B, CHR 0x0C, CHR 0x0D, CHR 0x20])"

definition startsWith :: "string \<Rightarrow> string \<Rightarrow> bool" where
  "startsWith s p = (take (length p) s = p)"

fun str_includes :: "string \<Rightarrow> string \<Rightarrow> bool" where
  "str_includes [] p = (p = [])"
| "str_includes (c # cs) p = (startsWith (c # cs) p \<or> str_includes cs p)"

text \<open>\<open>split\<close> on a one-character separator (never an empty list) and \<open>join\<close>.\<close>

fun split_on :: "char \<Rightarrow> string \<Rightarrow> string list" where
  "split_on d [] = [[]]"
| "split_on d (c # cs) =
     (if c = d then [] # split_on d cs
      else (case split_on d cs of [] \<Rightarrow> [[c]] | x # xs \<Rightarrow> (c # x) # xs))"

fun join :: "string \<Rightarrow> string list \<Rightarrow> string" where
  "join sep [] = []"
| "join sep [x] = x"
| "join sep (x # y # ys) = x @ sep @ join sep (y # ys)"

text \<open>\<open>path.split('/').pop()\<close>: the text after the last slash.\<close>

definition basename :: "string \<Rightarrow> string" where
  "basename p = last (split_on CHR ''/'' p)"

text \<open>Decimal rendering of a number, as \<open>toString\<close> and template literals give it.\<close>

definition digit_char :: "nat \<Rightarrow> char" where
  "digit_char d = ascii_digit ! (d mod 10)"

function show_nat :: "nat \<Rightarrow> string" where
  "show_nat n = (if n < 10 then [digit_char n] else show_nat (n div 10) @ [digit_char (n mod 10)])"
  by pat_completeness auto
termination
  by (relation "measure (\<lambda>n. n)") auto

declare show_nat.simps [simp del]

definition show_int :: "int \<Rightarrow> string" where
  "show_int i = (if i < 0 then CHR ''-'' # show_nat (nat (- i)) else show_nat (nat i))"

text \<open>\<open>String.prototype.trim\<close>: white space removed at both ends.\<close>

definition trim :: "string \<Rightarrow> string" where
  "trim s = rev (dropWhile is_space (rev (dropWhile is_space s)))"

subsection \<open>\<open>String.prototype.replace\<close> with a global regular expression\<close>

text \<open>
  The replacement text of \<open>replace\<close> is a template: \<open>$$\<close> stands for a dollar sign,
  \<open>$&\<close> for the matched text, \<open>$`\<close> for the text before the match and \<open>$'\<close> for
  the text after it. None of the regular expressions of this program has a capture
  group, so \<open>$1\<close> and the like stay as they are written.
\<close>

fun get_substitution :: "string \<Rightarrow> string \<Rightarrow> string \<Rightarrow> string \<Rightarrow> string" where
  "get_substitution matched pre post [] = []"
| "get_substitution matched pre post [c] = [c]"
| "get_substitution matched pre post (c # d # ds) =
     (if c = CHR ''$'' then
        (if d = CHR ''$'' then CHR ''$'' # get_substitution matched pre post ds
         else if d = CHR ''&'' then matched @ get_substitution matched pre post ds
         else if d = CHR 0x60 then pre @ get_substitution matched pre post ds
         else if d = CHR 0x27 then post @ get_substitution matched pre post ds
         else c # get_substitution matched pre post (d # ds))
      else c # get_substitution matched pre post (d # ds))"

text \<open>
  A regular expression is given by its matcher: at the current position, the length of
  the match that starts there, if there is one. With the \<open>g\<close> flag the matches are
  taken from left to right and do not overlap; after an empty match the scan moves on
  by one character.
\<close>

function js_replace_all ::
  "(string \<Rightarrow> nat option) \<Rightarrow> string \<Rightarrow> string \<Rightarrow> string \<Rightarrow> string" where
  "js_replace_all m repl pre [] =
     (case m [] of None \<Rightarrow> [] | Some n \<Rightarrow> get_substitution [] pre [] repl)"
| "js_replace_all m repl pre (c # cs) =
     (case m (c # cs) of
        None \<Rightarrow> c # js_replace_all m repl (pre @ [c]) cs
      | Some 0 \<Rightarrow> get_substitution [] pre (c # cs) repl
                  @ c # js_replace_all m repl (pre @ [c]) cs
      | Some (Suc k) \<Rightarrow>
          get_substitution (c # take k cs) pre (drop k cs) repl
            @ js_replace_all m repl (pre @ c # take k cs) (drop k cs))"
  by pat_completeness auto
termination
  by (relation "measure (\<lambda>(m, repl, pre, rest). length rest)") auto

definition replace_g :: "(string \<Rightarrow> nat option) \<Rightarrow> string \<Rightarrow> string \<Rightarrow> string" where
  "replace_g m repl s = js_replace_all m repl [] s"

text \<open>A character class \<open>[...]\<close> matches one character of the class.\<close>

definition match_class :: "(char \<Rightarrow> bool) \<Rightarrow> string \<Rightarrow> nat option" where
  "match_class P rest = (case rest of [] \<Rightarrow> None | c # cs \<Rightarrow> if P c then Some 1 else None)"

text \<open>\<open>\s+\<close> matches a longest non-empty run of white space.\<close>

definition match_ws_run :: "string \<Rightarrow> nat option" where
  "match_ws_run rest =
     (let n = length (takeWhile is_space rest) in if n = 0 then None else Some n)"

text \<open>
  A literal pattern under the \<open>i\<close> flag matches where the text agrees with it up to
  the case of letters. The empty pattern matches everywhere.
\<close>

definition match_literal_ci :: "string \<Rightarrow> string \<Rightarrow> nat option" where
  "match_literal_ci pat rest =
     (if length pat \<le> length rest
         \<and> toUpperCase (take (length pat) rest) = toUpperCase pat
      then Some (length pat) else None)"

section \<open>Site names\<close>

text \<open>
  \<open>createSite\<close> and the \<open>aem-create-microsite\<close> handler compute the node name as
  \<^verbatim>\<open>siteName.toLowerCase().replace(/\s+/g, '-').replace(/[^a-z0-9-]/g, '-')\<close>.
\<close>

definition slug_char :: "char \<Rightarrow> bool" where
  "slug_char c = (c \<in> set ascii_lower \<or> c \<in> set ascii_digit \<or> c = CHR ''-'')"

definition hyphenate_spaces :: "string \<Rightarrow> string" where
  "hyphenate_spaces s = replace_g match_ws_run ''-'' s"

definition sanitize :: "string \<Rightarrow> string" where
  "sanitize s =
     replace_g (match_class (\<lambda>c. \<not> slug_char c)) ''-'' (hyphenate_spaces (toLowerCase s))"

text \<open>The regular expression \<open>^[a-z0-9-]+$\<close>.\<close>

definition matches_slug :: "string \<Rightarrow> bool" where
  "matches_slug s = (s \<noteq> [] \<and> list_all slug_char s)"

section \<open>Query predicates\<close>

text \<open>
  \<open>escapeGlobValue\<close> is \<^verbatim>\<open>value.replace(/[\\*?\[\]{}]/g, '\\$&')\<close> and
  \<open>escapeLikeValue\<close> is \<^verbatim>\<open>value.replace(/[\\%_]/g, '\\$&')\<close>; both return the empty
  string for a missing or empty value.
\<close>

definition backslash :: char where
  "backslash = CHR 0x5C"

definition glob_special :: "char \<Rightarrow> bool" where
  "glob_special c = (c \<in> set [backslash, CHR ''*'', CHR ''?'', CHR ''['', CHR '']'', CHR ''{'', CHR ''}''])"

definition like_special :: "char \<Rightarrow> bool" where
  "like_special c = (c \<in> set [backslash, CHR ''%'', CHR ''_''])"

definition escapeGlobValue :: "string \<Rightarrow> string" where
  "escapeGlobValue v =
     (if v = [] then [] else replace_g (match_class glob_special) [backslash, CHR ''$'', CHR ''&''] v)"

definition escapeLikeValue :: "string \<Rightarrow> string" where
  "escapeLikeValue v =
     (if v = [] then [] else replace_g (match_class like_special) [backslash, CHR ''$'', CHR ''&''] v)"

section \<open>JSON values\<close>

text \<open>
  The data of a response and the metadata of an asset are JSON values. An object is the
  list of its entries in the order of \<open>Object.entries\<close>, with distinct keys. Numbers are
  never computed with; they are carried as integers.
\<close>

datatype json =
    JNull
  | JBool bool
  | JNum int
  | JStr string
  | JArr "json list"
  | JObj "(string \<times> json) list"


text \<open>An optional string parameter or environment variable: absent, or a text.\<close>

definition present :: "string option \<Rightarrow> bool" where
  "present x = (case x of None \<Rightarrow> False | Some s \<Rightarrow> s \<noteq> [])"

text \<open>\<open>a || b\<close> on optional strings.\<close>

definition js_or :: "string option \<Rightarrow> string option \<Rightarrow> string option" where
  "js_or a b = (if present a then a else b)"

definition text_of :: "string option \<Rightarrow> string" where
  "text_of x = (case x of None \<Rightarrow> [] | Some s \<Rightarrow> s)"

text \<open>
  \<open>Object.entries\<close>, which is also what the spread \<open>{...x}\<close> copies: the entries of an
  object, the indexed elements of an array, the indexed characters of a string, and
  nothing for any other value.
\<close>

definition index_keys :: "nat \<Rightarrow> string list" where
  "index_keys n = map show_nat [0..<n]"



text \<open>\<open>obj[key] = value\<close>: the entry is replaced where it stands, or added at the end.\<close>

fun set_prop :: "(string \<times> 'a) list \<Rightarrow> string \<Rightarrow> 'a \<Rightarrow> (string \<times> 'a) list" where
  "set_prop [] k v = [(k, v)]"
| "set_prop ((k', v') # es) k v = (if k' = k then (k, v) # es else (k', v') # set_prop es k v)"

section \<open>The remote repository and the HTTP client\<close>

text \<open>
  Every function that talks to the repository takes the repository as a parameter: a
  state \<open>'w\<close> and a function from a state and a request to an outcome and the next
  state. Nothing is assumed about it. The run of a function threads a system state: the
  repository's state and the trace of what the function did (each request sent, with the
  outcome it met; delays waited; lines written to the console). Authentication headers
  are the same on every request of a client and are left out of the requests.
\<close>

datatype http_method = GET | HEAD | POST | DELETE

datatype http_body = NoBody | FormBody "(string \<times> string) list" | JsonBody json

record http_request =
  req_method :: http_method
  req_url :: string
  req_query :: "(string \<times> string) list"
  req_body :: http_body

datatype http_outcome = Response nat json | NetworkError string

type_synonym 'w remote = "'w \<Rightarrow> http_request \<Rightarrow> http_outcome \<times> 'w"

datatype event = Http http_request http_outcome | Sleep nat | ConsoleLog string | ConsoleWarn string

record 'w sys =
  world :: 'w
  trace :: "event list"

definition emit :: "event \<Rightarrow> 'w sys \<Rightarrow> 'w sys" where
  "emit e s = s\<lparr>trace := trace s @ [e]\<rparr>"

text \<open>
  A thrown JavaScript error: its message and, for an error of the HTTP client that came
  with a response, the status of that response.
\<close>

record js_error =
  err_message :: string
  err_status :: "nat option"

definition new_Error :: "string \<Rightarrow> js_error" where
  "new_Error msg = \<lparr>err_message = msg, err_status = None\<rparr>"

text \<open>
  One call of the axios instance. The request goes out and is recorded with its outcome;
  a response whose status \<open>validateStatus\<close> accepts resolves, any other response and
  any network failure rejects.
\<close>

definition resolves :: "(nat \<Rightarrow> bool) \<Rightarrow> http_outcome \<Rightarrow> bool" where
  "resolves validateStatus out =
     (case out of Response st d \<Rightarrow> validateStatus st | NetworkError msg \<Rightarrow> False)"

definition rejection :: "http_outcome \<Rightarrow> js_error" where
  "rejection out =
     (case out of
        NetworkError msg \<Rightarrow> \<lparr>err_message = msg, err_status = None\<rparr>
      | Response st d \<Rightarrow>
          \<lparr>err_message = ''Request failed with status code '' @ show_nat st,
           err_status = Some st\<rparr>)"

definition axios ::
  "'w remote \<Rightarrow> (nat \<Rightarrow> bool) \<Rightarrow> http_request \<Rightarrow> 'w sys \<Rightarrow> (js_error + nat \<times> json) \<times> 'w sys" where
  "axios remote validateStatus req s =
     (case remote (world s) req of
        (out, w') \<Rightarrow>
          (let s' = \<lparr>world = w', trace = trace s @ [Http req out]\<rparr> in
           case out of
             NetworkError msg \<Rightarrow> (Inl (rejection out), s')
           | Response st d \<Rightarrow>
               if validateStatus st then (Inr (st, d), s') else (Inl (rejection out), s')))"

text \<open>The default of axios: the statuses 200 to 299 resolve.\<close>

definition default_validate :: "nat \<Rightarrow> bool" where
  "default_validate st = (200 \<le> st \<and> st < 300)"

definition request :: "http_method \<Rightarrow> string \<Rightarrow> http_body \<Rightarrow> http_request" where
  "request m u b = \<lparr>req_method = m, req_url = u, req_query = [], req_body = b\<rparr>"

section \<open>Credential resolver\<close>

text \<open>
  \<open>getAEMCredentials\<close> reads the parameters of the call and the process environment.
  Its debug output on the console is not part of the model.
\<close>

record cred_params =
  p_authorUrl :: "string option"
  p_server :: "string option"
  p_token :: "string option"
  p_username :: "string option"
  p_password :: "string option"

record environment =
  AEM_AUTHOR_URL :: "string option"
  AEM_TOKEN :: "string option"
  AEM_USERNAME :: "string option"
  AEM_PASSWORD :: "string option"
  LOG_LEVEL :: "string option"

datatype credentials = BasicAuth string string | BearerToken string

definition default_author_url :: string where
  "default_author_url = ''https://author-p18253-e46622.adobeaemcloud.com''"

definition show_bool :: "bool \<Rightarrow> string" where
  "show_bool b = (if b then ''true'' else ''false'')"

text \<open>The names of the environment variables that the error message asks for.\<close>

definition unset_env_vars :: "environment \<Rightarrow> string list" where
  "unset_env_vars env =
     (if \<not> present (AEM_TOKEN env) then [''AEM_TOKEN''] else [])
     @ (if \<not> present (AEM_USERNAME env) then [''AEM_USERNAME''] else [])
     @ (if \<not> present (AEM_PASSWORD env) then [''AEM_PASSWORD''] else [])"

definition auth_error_message :: "environment \<Rightarrow> string" where
  "auth_error_message env =
     ''Authentication required. Please provide token or username/password as tool parameters, or set environment variables: ''
     @ join '', '' (unset_env_vars env)
     @ ''. Current env vars status: AEM_TOKEN='' @ show_bool (present (AEM_TOKEN env))
     @ '', AEM_USERNAME='' @ show_bool (present (AEM_USERNAME env))
     @ '', AEM_PASSWORD='' @ show_bool (present (AEM_PASSWORD env))"

definition finalAuthorUrl :: "cred_params \<Rightarrow> environment \<Rightarrow> string" where
  "finalAuthorUrl params env =
     text_of (js_or (p_authorUrl params)
        (js_or (p_server params) (js_or (AEM_AUTHOR_URL env) (Some default_author_url))))"

definition finalToken :: "cred_params \<Rightarrow> environment \<Rightarrow> string option" where
  "finalToken params env = js_or (p_token params) (AEM_TOKEN env)"

definition finalUsername :: "cred_params \<Rightarrow> environment \<Rightarrow> string option" where
  "finalUsername params env = js_or (p_username params) (AEM_USERNAME env)"

definition finalPassword :: "cred_params \<Rightarrow> environment \<Rightarrow> string option" where
  "finalPassword params env = js_or (p_password params) (AEM_PASSWORD env)"

definition isAEMCloudService :: "cred_params \<Rightarrow> environment \<Rightarrow> bool" where
  "isAEMCloudService params env = str_includes (finalAuthorUrl params env) ''adobeaemcloud.com''"

definition getAEMCredentials ::
  "cred_params \<Rightarrow> environment \<Rightarrow> string + string \<times> credentials" where
  "getAEMCredentials params env =
     (if present (finalUsername params env) \<and> present (finalPassword params env)
         \<and> (isAEMCloudService params env \<or> \<not> present (finalToken params env))
      then Inr (finalAuthorUrl params env,
                BasicAuth (text_of (finalUsername params env)) (text_of (finalPassword params env)))
      else if present (finalToken params env)
      then Inr (finalAuthorUrl params env, BearerToken (text_of (finalToken params env)))
      else Inl (auth_error_message env))"

section \<open>Microsite client\<close>

text \<open>The base client removes one trailing slash from the author URL.\<close>

definition strip_trailing_slash :: "string \<Rightarrow> string" where
  "strip_trailing_slash u = (if u \<noteq> [] \<and> last u = CHR ''/'' then butlast u else u)"

definition or_default :: "string option \<Rightarrow> string \<Rightarrow> string" where
  "or_default x d = (case x of None \<Rightarrow> d | Some v \<Rightarrow> v)"

record site_config =
  sc_siteName :: "string option"
  sc_siteTitle :: "string option"
  sc_templatePath :: "string option"
  sc_parentPath :: "string option"
  sc_language :: "string option"
  sc_country :: "string option"

record site_result =
  sr_success :: bool
  sr_sitePath :: string
  sr_siteName :: string
  sr_siteTitle :: string
  sr_authorUrl :: string
  sr_message :: string

definition standard_template :: string where
  "standard_template = ''/conf/site-templates/settings/wcm/templates/standard-template''"

definition basic_template :: string where
  "basic_template = ''/conf/site-templates/settings/wcm/templates/basic-template''"

definition site_form :: "string \<Rightarrow> string \<Rightarrow> string \<Rightarrow> string \<Rightarrow> (string \<times> string) list" where
  "site_form siteTitle templatePath language country =
     [(''jcr:primaryType'', ''cq:Page''),
      (''jcr:content/jcr:primaryType'', ''cq:PageContent''),
      (''jcr:content/jcr:title'', siteTitle),
      (''jcr:content/cq:template'', templatePath),
      (''jcr:content/sling:resourceType'', ''core/wcm/components/page/v3/page''),
      (''jcr:content/language'', language),
      (''jcr:content/country'', country)]"

text \<open>The name that \<open>createSite\<close> sanitizes: the given one, or one derived from the title.\<close>

definition derive_name :: "string \<Rightarrow> string" where
  "derive_name siteTitle = hyphenate_spaces (toLowerCase siteTitle)"

definition site_path :: "site_config \<Rightarrow> string" where
  "site_path cfg =
     or_default (sc_parentPath cfg) ''/content'' @ ''/''
       @ sanitize (if \<not> present (sc_siteName cfg) then derive_name (text_of (sc_siteTitle cfg))
                   else text_of (sc_siteName cfg))"

definition site_request :: "site_config \<Rightarrow> http_request" where
  "site_request cfg =
     request POST (site_path cfg)
       (FormBody (site_form (text_of (sc_siteTitle cfg))
                    (or_default (sc_templatePath cfg) standard_template)
                    (or_default (sc_language cfg) ''en'')
                    (or_default (sc_country cfg) ''US'')))"

definition createSite ::
  "'w remote \<Rightarrow> string \<Rightarrow> site_config \<Rightarrow> 'w sys \<Rightarrow> (js_error + site_result) \<times> 'w sys" where
  "createSite remote authorUrl cfg s =
     (if \<not> present (sc_siteTitle cfg)
      then (Inl (new_Error ''Failed to create site: siteTitle is required''), s)
      else
        (let siteTitle = text_of (sc_siteTitle cfg);
             siteName = (if \<not> present (sc_siteName cfg) then derive_name siteTitle
                         else text_of (sc_siteName cfg));
             sanitizedSiteName = sanitize siteName;
             sitePath = site_path cfg
         in case axios remote default_validate (site_request cfg) s of
              (Inl e, s') \<Rightarrow>
                (Inl (new_Error (''Failed to create site: '' @ err_message e)), s')
            | (Inr r, s') \<Rightarrow>
                (Inr \<lparr>sr_success = True, sr_sitePath = sitePath,
                      sr_siteName = sanitizedSiteName, sr_siteTitle = siteTitle,
                      sr_authorUrl = authorUrl @ ''/editor.html'' @ sitePath @ ''.html'',
                      sr_message = ''Site created successfully''\<rparr>, s')))"

record page_config =
  pc_sitePath :: string
  pc_pageName :: string
  pc_pageTitle :: string
  pc_templatePath :: "string option"

record page_result =
  pg_pagePath :: string
  pg_pageName :: string
  pg_pageTitle :: string
  pg_url :: string

definition page_form :: "string \<Rightarrow> string \<Rightarrow> (string \<times> string) list" where
  "page_form pageTitle templatePath =
     [(''jcr:primaryType'', ''cq:Page''),
      (''jcr:content/jcr:primaryType'', ''cq:PageContent''),
      (''jcr:content/jcr:title'', pageTitle),
      (''jcr:content/cq:template'', templatePath),
      (''jcr:content/sling:resourceType'', ''core/wcm/components/page/v3/page''),
      (''jcr:content/root/jcr:primaryType'', ''nt:unstructured''),
      (''jcr:content/root/layout'', ''responsiveGrid''),
      (''jcr:content/root/sling:resourceType'', ''core/wcm/components/container/v1/container''),
      (''jcr:content/root/container/jcr:primaryType'', ''nt:unstructured''),
      (''jcr:content/root/container/sling:resourceType'', ''core/wcm/components/container/v1/container''),
      (''jcr:content/root/container/title/jcr:primaryType'', ''nt:unstructured''),
      (''jcr:content/root/container/title/sling:resourceType'', ''core/wcm/components/title/v3/title''),
      (''jcr:content/root/container/teaser/jcr:primaryType'', ''nt:unstructured''),
      (''jcr:content/root/container/teaser/sling:resourceType'', ''core/wcm/components/teaser/v2/teaser''),
      (''jcr:content/root/container/teaser/actionsEnabled'', ''true''),
      (''jcr:content/root/container/teaser/altValueFromDAM'', ''false''),
      (''jcr:content/root/container/teaser/descriptionFromPage'', ''false''),
      (''jcr:content/root/container/teaser/disableLazyLoading'', ''true''),
      (''jcr:content/root/container/teaser/fileReference'', ''/content/dam/site-templates/Image@2x.png''),
      (''jcr:content/root/container/teaser/imageFromPageImage'', ''false''),
      (''jcr:content/root/container/teaser/isDecorative'', ''false''),
      (''jcr:content/root/container/teaser/jcr:description'',
       ''<p>Lorem ipsum dolor sit amet, consectetur adipiscing elit, sed do eiusmod tempor incididunt ut labore et dolore magna aliqua.</p>''),
      (''jcr:content/root/container/teaser/jcr:title'', ''This is a Teaser''),
      (''jcr:content/root/container/teaser/pretitle'', ''Teaser''),
      (''jcr:content/root/container/teaser/textIsRich'', ''true'')]"

definition page_template :: string where
  "page_template = ''/conf/site-templates/settings/wcm/templates/page-template''"

definition page_request :: "page_config \<Rightarrow> http_request" where
  "page_request cfg =
     request POST (pc_sitePath cfg @ ''/'' @ pc_pageName cfg)
       (FormBody (page_form (pc_pageTitle cfg) (or_default (pc_templatePath cfg) page_template)))"

definition createPage ::
  "'w remote \<Rightarrow> string \<Rightarrow> page_config \<Rightarrow> 'w sys \<Rightarrow> (js_error + page_result) \<times> 'w sys" where
  "createPage remote authorUrl cfg s =
     (let pagePath = pc_sitePath cfg @ ''/'' @ pc_pageName cfg
      in case axios remote default_validate (page_request cfg) s of
           (Inl e, s') \<Rightarrow> (Inl (new_Error (''Failed to create page: '' @ err_message e)), s')
         | (Inr r, s') \<Rightarrow>
             (Inr \<lparr>pg_pagePath = pagePath, pg_pageName = pc_pageName cfg,
                   pg_pageTitle = pc_pageTitle cfg,
                   pg_url = authorUrl @ ''/editor.html'' @ pagePath @ ''.html''\<rparr>, s'))"

text \<open>\<open>pageName.charAt(0).toUpperCase() + pageName.slice(1)\<close>\<close>

definition capitalize :: "string \<Rightarrow> string" where
  "capitalize n = (case n of [] \<Rightarrow> [] | c # cs \<Rightarrow> upper_char c # cs)"

definition page_config_of :: "string \<Rightarrow> string \<Rightarrow> page_config" where
  "page_config_of sitePath pageName =
     \<lparr>pc_sitePath = sitePath, pc_pageName = pageName, pc_pageTitle = capitalize pageName,
      pc_templatePath = None\<rparr>"

text \<open>
  The loop of \<open>createMicrosite\<close> over the page names: a page that is created is pushed to
  \<open>createdPages\<close>; a failure is caught, a warning is written, and the loop goes on.
\<close>

fun create_pages ::
  "'w remote \<Rightarrow> string \<Rightarrow> string \<Rightarrow> string list \<Rightarrow> page_result list \<Rightarrow> 'w sys
     \<Rightarrow> page_result list \<times> 'w sys" where
  "create_pages remote authorUrl sitePath [] createdPages s = (createdPages, s)"
| "create_pages remote authorUrl sitePath (pageName # rest) createdPages s =
     (case createPage remote authorUrl (page_config_of sitePath pageName) s of
        (Inr pageResult, s') \<Rightarrow>
          create_pages remote authorUrl sitePath rest (createdPages @ [pageResult]) s'
      | (Inl pageError, s') \<Rightarrow>
          create_pages remote authorUrl sitePath rest createdPages
            (emit (ConsoleWarn (''Could not create page '' @ pageName @ '': ''
                                  @ err_message pageError)) s'))"

record microsite_config =
  mc_siteName :: "string option"
  mc_siteTitle :: "string option"
  mc_templatePath :: "string option"
  mc_parentPath :: "string option"
  mc_pages :: "string list option"

record microsite_result = site_result +
  mr_pages :: "page_result list"

definition default_pages :: "string list" where
  "default_pages = [''main'', ''about'', ''contact'']"

text \<open>The configuration and the page names that \<open>createMicrosite\<close> works with.\<close>

definition microsite_site_config :: "microsite_config \<Rightarrow> site_config" where
  "microsite_site_config cfg =
     \<lparr>sc_siteName = (if \<not> present (mc_siteName cfg) \<and> present (mc_siteTitle cfg)
                      then Some (derive_name (text_of (mc_siteTitle cfg)))
                      else mc_siteName cfg),
      sc_siteTitle = mc_siteTitle cfg,
      sc_templatePath = mc_templatePath cfg,
      sc_parentPath = Some (or_default (mc_parentPath cfg) ''/content''),
      sc_language = None, sc_country = None\<rparr>"

definition microsite_pages :: "microsite_config \<Rightarrow> string list" where
  "microsite_pages cfg = (case mc_pages cfg of None \<Rightarrow> default_pages | Some ps \<Rightarrow> ps)"

definition createMicrosite ::
  "'w remote \<Rightarrow> string \<Rightarrow> microsite_config \<Rightarrow> 'w sys
     \<Rightarrow> (js_error + microsite_result) \<times> 'w sys" where
  "createMicrosite remote authorUrl cfg s =
     (case createSite remote authorUrl (microsite_site_config cfg) s of
        (Inl e, s') \<Rightarrow>
          (Inl (new_Error (''Failed to create microsite: '' @ err_message e)), s')
      | (Inr siteResult, s') \<Rightarrow>
          (case create_pages remote authorUrl (sr_sitePath siteResult)
                  (microsite_pages cfg) [] s' of
             (createdPages, s'') \<Rightarrow>
               (Inr \<lparr>sr_success = sr_success siteResult,
                     sr_sitePath = sr_sitePath siteResult,
                     sr_siteName = sr_siteName siteResult,
                     sr_siteTitle = sr_siteTitle siteResult,
                     sr_authorUrl = sr_authorUrl siteResult,
                     sr_message = ''Microsite created with '' @ show_nat (length createdPages)
                       @ '' pages (structure similar to /content/demo/main.html)'',
                     mr_pages = createdPages\<rparr>, s'')))"

definition deleteSite :: "'w remote \<Rightarrow> string \<Rightarrow> 'w sys \<Rightarrow> (js_error + string) \<times> 'w sys" where
  "deleteSite remote sitePath s =
     (case axios remote default_validate (request DELETE sitePath NoBody) s of
        (Inl e, s') \<Rightarrow> (Inl (new_Error (''Failed to delete site: '' @ err_message e)), s')
      | (Inr r, s') \<Rightarrow> (Inr (''Site deleted: '' @ sitePath), s'))"

section \<open>The \<open>aem-create-microsite\<close> tool\<close>

datatype template_type = Standard | Basic

record microsite_args =
  a_siteName :: "string option"
  a_siteTitle :: string
  a_authorUrl :: "string option"
  a_username :: "string option"
  a_password :: "string option"
  a_token :: "string option"
  a_templateType :: "template_type option"
  a_pages :: "string list option"
  a_parentPath :: "string option"
  a_overwrite :: "bool option"

text \<open>
  What the handler answers: the text that asks for credentials, the report of the
  microsite it created, or the report of the error it caught. The wording of the reports
  is not part of the model.
\<close>

datatype tool_reply =
    AuthenticationRequired string
  | MicrositeCreated microsite_result
  | MicrositeFailed js_error

definition delete_request :: "string \<Rightarrow> http_request" where
  "delete_request sitePath = request DELETE sitePath NoBody"

text \<open>The wait after a deletion: \<open>if (deleted) await setTimeout(500)\<close>.\<close>

definition settle :: "bool \<Rightarrow> 'w sys \<Rightarrow> 'w sys" where
  "settle deleted s = (if deleted then emit (Sleep 500) s else s)"

text \<open>
  The overwrite block of the handler: \<open>deleteSite\<close> first; if it throws, a direct
  \<open>DELETE\<close> that accepts every status below 500; then the wait, if something was
  deleted or nothing was there.
\<close>

definition overwrite_delete :: "'w remote \<Rightarrow> string \<Rightarrow> 'w sys \<Rightarrow> 'w sys" where
  "overwrite_delete remote sitePath s =
     (case deleteSite remote sitePath s of
        (Inr r, s1) \<Rightarrow>
          settle True (emit (ConsoleLog (''Deleted existing site at '' @ sitePath)) s1)
      | (Inl deleteError, s1) \<Rightarrow>
          (case axios remote (\<lambda>status. status < 500) (delete_request sitePath) s1 of
             (Inr (status, d), s2) \<Rightarrow>
               if status = 200 \<or> status = 204
               then settle True
                      (emit (ConsoleLog (''Deleted conflicting node at '' @ sitePath
                                           @ '' via direct DELETE'')) s2)
               else if status = 404
               then settle True
                      (emit (ConsoleLog (''No node found at '' @ sitePath
                                           @ '', proceeding with creation'')) s2)
               else settle False
                      (emit (ConsoleWarn (''DELETE returned status '' @ show_nat status
                                            @ '' for '' @ sitePath)) s2)
           | (Inl directDeleteError, s2) \<Rightarrow>
               (let isNotFound =
                      (str_includes (err_message deleteError) ''404''
                       \<or> str_includes (err_message deleteError) ''not found''
                       \<or> err_status directDeleteError = Some 404)
                in if \<not> isNotFound
                   then settle False
                          (emit (ConsoleWarn (''  direct DELETE error: ''
                                                @ err_message directDeleteError))
                            (emit (ConsoleWarn (''  deleteSite error: ''
                                                  @ err_message deleteError))
                              (emit (ConsoleWarn (''Warning: Could not delete existing node at ''
                                                    @ sitePath)) s2)))
                   else settle True s2)))"

definition template_path_of :: "template_type option \<Rightarrow> string" where
  "template_path_of t =
     (case t of None \<Rightarrow> standard_template
      | Some Standard \<Rightarrow> standard_template
      | Some Basic \<Rightarrow> basic_template)"

definition args_credentials :: "microsite_args \<Rightarrow> cred_params" where
  "args_credentials args =
     \<lparr>p_authorUrl = a_authorUrl args, p_server = None, p_token = a_token args,
      p_username = a_username args, p_password = a_password args\<rparr>"

definition args_microsite :: "microsite_args \<Rightarrow> microsite_config" where
  "args_microsite args =
     \<lparr>mc_siteName = a_siteName args, mc_siteTitle = Some (a_siteTitle args),
      mc_templatePath = Some (template_path_of (a_templateType args)),
      mc_parentPath = Some (or_default (a_parentPath args) ''/content''),
      mc_pages = Some (case a_pages args of None \<Rightarrow> default_pages | Some ps \<Rightarrow> ps)\<rparr>"

text \<open>
  The handler. \<open>finalSiteName\<close> is \<open>undefined\<close> when no name is given and the title is
  empty; \<open>finalSiteName.toLowerCase()\<close> then throws a \<open>TypeError\<close>, which the handler's
  own \<open>catch\<close> reports.
\<close>

definition aem_create_microsite ::
  "'w remote \<Rightarrow> environment \<Rightarrow> microsite_args \<Rightarrow> 'w sys \<Rightarrow> tool_reply \<times> 'w sys" where
  "aem_create_microsite remote env args s =
     (case getAEMCredentials (args_credentials args) env of
        Inl err \<Rightarrow> (AuthenticationRequired err, s)
      | Inr (authorUrl, creds) \<Rightarrow>
          (let parentPath = or_default (a_parentPath args) ''/content'';
               finalSiteName =
                 (if \<not> present (a_siteName args) \<and> a_siteTitle args \<noteq> []
                  then Some (derive_name (a_siteTitle args))
                  else a_siteName args)
           in case finalSiteName of
                None \<Rightarrow>
                  (MicrositeFailed
                     (new_Error ''Cannot read properties of undefined (reading 'toLowerCase')''), s)
              | Some name \<Rightarrow>
                  (let sitePath = parentPath @ ''/'' @ sanitize name;
                       s1 = (if a_overwrite args = Some True
                             then overwrite_delete remote sitePath s else s)
                   in case createMicrosite remote (strip_trailing_slash authorUrl)
                             (args_microsite args) s1 of
                        (Inr result, s2) \<Rightarrow> (MicrositeCreated result, s2)
                      | (Inl e, s2) \<Rightarrow> (MicrositeFailed e, s2))))"

section \<open>Reading a trace\<close>

text \<open>What a run added to the trace, and its parts.\<close>

definition new_events :: "'w sys \<Rightarrow> 'w sys \<Rightarrow> event list" where
  "new_events s s' = drop (length (trace s)) (trace s')"

fun http_of :: "event list \<Rightarrow> (http_request \<times> http_outcome) list" where
  "http_of [] = []"
| "http_of (Http q out # es) = (q, out) # http_of es"
| "http_of (e # es) = http_of es"

fun warnings :: "event list \<Rightarrow> string list" where
  "warnings [] = []"
| "warnings (ConsoleWarn m # es) = m # warnings es"
| "warnings (e # es) = warnings es"

text \<open>The requests and the waits of a trace, without the console lines.\<close>

fun effects :: "event list \<Rightarrow> event list" where
  "effects [] = []"
| "effects (ConsoleLog m # es) = effects es"
| "effects (ConsoleWarn m # es) = effects es"
| "effects (e # es) = e # effects es"

text \<open>What \<open>createMicrosite\<close> reports for a page it created, and what it warns otherwise.\<close>

definition page_result_of :: "string \<Rightarrow> string \<Rightarrow> string \<Rightarrow> page_result" where
  "page_result_of authorUrl sitePath pageName =
     \<lparr>pg_pagePath = sitePath @ ''/'' @ pageName, pg_pageName = pageName,
      pg_pageTitle = capitalize pageName,
      pg_url = authorUrl @ ''/editor.html'' @ sitePath @ ''/'' @ pageName @ ''.html''\<rparr>"

definition page_warning :: "string \<Rightarrow> http_outcome \<Rightarrow> string" where
  "page_warning pageName out =
     ''Could not create page '' @ pageName @ '': Failed to create page: ''
       @ err_message (rejection out)"

text \<open>The node that one call of the tool works on, and the request that deletes it.\<close>

definition tool_site_path :: "microsite_args \<Rightarrow> string" where
  "tool_site_path args = site_path (microsite_site_config (args_microsite args))"

definition tool_site_request :: "microsite_args \<Rightarrow> http_request" where
  "tool_site_request args = site_request (microsite_site_config (args_microsite args))"

section \<open>Asset client\<close>

subsection \<open>Search and replace in metadata\<close>

text \<open>
  \<open>escapeRegex\<close> is \<^verbatim>\<open>value.replace(/[.*+?^${}()|[\]\\]/g, '\\$&')\<close>. A pattern made of
  plain characters and escaped metacharacters matches its own text; \<open>new RegExp(p, 'gi')\<close>
  is read so.
\<close>

definition regex_special :: "char \<Rightarrow> bool" where
  "regex_special c = (c \<in> set (backslash # ''.*+?^${}()|[]''))"

definition escapeRegex :: "string \<Rightarrow> string" where
  "escapeRegex v =
     (if v = [] then []
      else replace_g (match_class regex_special) [backslash, CHR ''$'', CHR ''&''] v)"

fun pattern_text :: "string \<Rightarrow> string" where
  "pattern_text [] = []"
| "pattern_text [c] = [c]"
| "pattern_text (c # d # ds) =
     (if c = backslash then d # pattern_text ds else c # pattern_text (d # ds))"

definition new_RegExp_gi :: "string \<Rightarrow> string \<Rightarrow> nat option" where
  "new_RegExp_gi source = match_literal_ci (pattern_text source)"

text \<open>\<^verbatim>\<open>value.replace(new RegExp(this.escapeRegex(searchValue), 'gi'), replaceValue)\<close>\<close>

definition replace_value :: "string \<Rightarrow> string \<Rightarrow> string \<Rightarrow> string" where
  "replace_value searchValue replaceValue v =
     replace_g (new_RegExp_gi (escapeRegex searchValue)) replaceValue v"




subsection \<open>One hit of \<open>searchAssets\<close>\<close>






subsection \<open>The rewrite as the specification words it\<close>





subsection \<open>Rename\<close>

record rename_result =
  rn_success :: bool
  rn_oldPath :: string
  rn_newPath :: string
  rn_newName :: string
  rn_message :: string

definition rename_failed :: "string \<Rightarrow> js_error" where
  "rename_failed msg = new_Error (''Failed to rename asset: '' @ msg)"

definition rename_new_path :: "string \<Rightarrow> string \<Rightarrow> string" where
  "rename_new_path assetPath newName =
     join ''/'' (butlast (split_on CHR ''/'' assetPath)) @ ''/'' @ basename newName"

definition move_request :: "string \<Rightarrow> string \<Rightarrow> http_request" where
  "move_request assetPath newPath =
     \<lparr>req_method = POST, req_url = assetPath,
      req_query = [('':operation'', ''move''), ('':dest'', newPath)],
      req_body = JsonBody (JObj [])\<rparr>"

definition renameAsset ::
  "'w remote \<Rightarrow> string \<Rightarrow> string \<Rightarrow> 'w sys \<Rightarrow> (js_error + rename_result) \<times> 'w sys" where
  "renameAsset remote assetPath newName s =
     (if assetPath = [] \<or> newName = []
      then (Inl (rename_failed ''Asset path and new name are required''), s)
      else if \<not> startsWith assetPath ''/content/dam/''
      then (Inl (rename_failed ''Asset path must start with /content/dam/''), s)
      else
        (let sanitizedName = basename newName;
             newPath = rename_new_path assetPath newName
         in case axios remote default_validate (request HEAD assetPath NoBody) s of
              (Inl e, s1) \<Rightarrow>
                (if err_status e = Some 404
                 then (Inl (rename_failed (''Asset not found at path: '' @ assetPath)), s1)
                 else (Inl (rename_failed (err_message e)), s1))
            | (Inr r, s1) \<Rightarrow>
                (case axios remote default_validate (request HEAD newPath NoBody) s1 of
                   (Inr r2, s2) \<Rightarrow>
                     (Inl (rename_failed (''Asset already exists at target path: '' @ newPath)), s2)
                 | (Inl e2, s2) \<Rightarrow>
                     (if err_status e2 \<noteq> Some 404 \<and> err_message e2 \<noteq> []
                         \<and> str_includes (err_message e2) ''already exists''
                      then (Inl (rename_failed (err_message e2)), s2)
                      else
                        (case axios remote default_validate (move_request assetPath newPath) s2 of
                           (Inl e3, s3) \<Rightarrow> (Inl (rename_failed (err_message e3)), s3)
                         | (Inr r3, s3) \<Rightarrow>
                             (Inr \<lparr>rn_success = True, rn_oldPath = assetPath,
                                   rn_newPath = newPath, rn_newName = sanitizedName,
                                   rn_message = ''Asset renamed from \"'' @ basename assetPath
                                      @ ''\" to \"'' @ sanitizedName @ ''\"''\<rparr>, s3))))))"

subsection \<open>Metadata update\<close>

text \<open>\<open>String(value)\<close>, which is also what \<open>value.toString()\<close> gives for a value that is not null.\<close>

fun js_string :: "json \<Rightarrow> string"
  and js_strings :: "json list \<Rightarrow> string list" where
  "js_string JNull = ''null''"
| "js_string (JBool b) = show_bool b"
| "js_string (JNum n) = show_int n"
| "js_string (JStr v) = v"
| "js_string (JArr xs) = join '','' (js_strings xs)"
| "js_string (JObj es) = ''[object Object]''"
| "js_strings [] = []"
| "js_strings (x # xs) = (if x = JNull then [] else js_string x) # js_strings xs"










section \<open>Protocol adapter\<close>

text \<open>
  One invocation of the action. What the platform and the protocol library do is taken
  as a parameter: \<open>JSON.parse\<close> (the message of its \<open>SyntaxError\<close>, or the value), the
  base64 decoding of a buffer, the creation of the logger (the message of its error, if
  it fails), the exchange that the library drives on the request (the error it throws,
  or the response captured from it), the stack that an error carries, and the clock.
\<close>

datatype ow_body = BodyText string | BodyObject json

record ow_params =
  ow_method :: "string option"
  ow_body :: "ow_body option"
  ow_session :: "string option"

record mcp_request =
  rq_method :: string
  rq_session :: "string option"
  rq_body :: "json option"

record http_response =
  statusCode :: nat
  headers :: "(string \<times> string) list"
  body :: "string + json"

record platform =
  JSON_parse :: "string \<Rightarrow> string + json"
  base64_utf8 :: "string \<Rightarrow> string"
  logger_error :: "string option"
  sdk_exchange :: "mcp_request \<Rightarrow> js_error + http_response"
  error_stack :: "js_error \<Rightarrow> string"
  clock :: string

text \<open>
  \<open>parseRequestBody\<close>: no body gives \<open>null\<close>; a string is parsed after base64 decoding
  and, if that fails, as it is; an object is returned as it is.
\<close>

definition parseRequestBody :: "platform \<Rightarrow> ow_params \<Rightarrow> js_error + json option" where
  "parseRequestBody pf params =
     (case ow_body params of
        None \<Rightarrow> Inr None
      | Some (BodyObject v) \<Rightarrow> Inr (Some v)
      | Some (BodyText t) \<Rightarrow>
          if t = [] then Inr None
          else (case JSON_parse pf (base64_utf8 pf t) of
                  Inr v \<Rightarrow> Inr (Some v)
                | Inl e \<Rightarrow>
                    (case JSON_parse pf t of
                       Inr v \<Rightarrow> Inr (Some v)
                     | Inl msg \<Rightarrow>
                         Inl (new_Error (''Failed to parse request body: '' @ msg)))))"

definition createCompatibleRequest :: "platform \<Rightarrow> ow_params \<Rightarrow> js_error + mcp_request" where
  "createCompatibleRequest pf params =
     (case parseRequestBody pf params of
        Inl e \<Rightarrow> Inl e
      | Inr b \<Rightarrow>
          Inr \<lparr>rq_method = toUpperCase (text_of (js_or (ow_method params) (Some ''GET''))),
               rq_session = ow_session params, rq_body = b\<rparr>)"

definition cors_headers :: "(string \<times> string) list" where
  "cors_headers =
     [(''Access-Control-Allow-Origin'', ''*''),
      (''Access-Control-Allow-Methods'', ''GET, POST, OPTIONS, DELETE''),
      (''Access-Control-Allow-Headers'',
       ''Content-Type, Accept, Authorization, x-api-key, mcp-session-id, Last-Event-ID''),
      (''Access-Control-Expose-Headers'', ''Content-Type, mcp-session-id, Last-Event-ID''),
      (''Access-Control-Max-Age'', ''86400'')]"

definition error_headers :: "(string \<times> string) list" where
  "error_headers =
     [(''Access-Control-Allow-Origin'', ''*''), (''Content-Type'', ''application/json'')]"

text \<open>
  A JSON-RPC error envelope as \<open>JSON.stringify\<close> writes it: a \<open>data\<close> that is
  \<open>undefined\<close> leaves no key behind.
\<close>

definition rpc_error :: "int \<Rightarrow> string \<Rightarrow> json option \<Rightarrow> json" where
  "rpc_error code msg data =
     JObj [(''jsonrpc'', JStr ''2.0''),
           (''error'', JObj ([(''code'', JNum code), (''message'', JStr msg)]
                             @ (case data of None \<Rightarrow> [] | Some d \<Rightarrow> [(''data'', d)]))),
           (''id'', JNull)]"

text \<open>
  The \<open>catch\<close> block of \<open>handleMcpRequest\<close>. Its first statement reads \<open>req.body\<close>. The
  first argument is the binding of \<open>req\<close> that the block can see: with none, reading it
  throws a \<open>ReferenceError\<close> and the block is left; with one, the block goes on to build
  the response with status 500 and code \<open>-32603\<close>, with the stack under \<open>data\<close> when
  \<open>LOG_LEVEL\<close> is \<open>debug\<close>.
\<close>

definition handler_catch ::
  "platform \<Rightarrow> environment \<Rightarrow> mcp_request option \<Rightarrow> js_error \<Rightarrow> js_error + http_response" where
  "handler_catch pf env req_in_scope error =
     (case req_in_scope of
        None \<Rightarrow> Inl (new_Error ''req is not defined'')
      | Some req \<Rightarrow>
          Inr \<lparr>statusCode = 500, headers = error_headers,
               body = Inr (rpc_error (- 32603)
                             (''Internal server error: '' @ err_message error)
                             (if LOG_LEVEL env = Some ''debug''
                              then Some (JObj [(''stack'', JStr (error_stack pf error)),
                                               (''name'', JStr ''Error'')])
                              else None))\<rparr>)"

text \<open>
  \<open>handleMcpRequest\<close>. \<open>req\<close> is declared with \<open>const\<close> inside the \<open>try\<close> block, so
  the \<open>catch\<close> block has no binding of it.
\<close>

definition handleMcpRequest ::
  "platform \<Rightarrow> environment \<Rightarrow> ow_params \<Rightarrow> js_error + http_response" where
  "handleMcpRequest pf env params =
     (case createCompatibleRequest pf params of
        Inl error \<Rightarrow> handler_catch pf env None error
      | Inr req \<Rightarrow>
          (case sdk_exchange pf req of
             Inl error \<Rightarrow> handler_catch pf env None error
           | Inr result \<Rightarrow> Inr result))"

definition handleHealthCheck :: "platform \<Rightarrow> http_response" where
  "handleHealthCheck pf =
     \<lparr>statusCode = 200,
      headers = cors_headers @ [(''Content-Type'', ''application/json'')],
      body = Inr (JObj [(''status'', JStr ''healthy''), (''server'', JStr ''my-mcp-server''),
                        (''version'', JStr ''1.0.0''),
                        (''description'',
                         JStr ''Adobe I/O Runtime MCP Server using official TypeScript SDK v1.17.4''),
                        (''timestamp'', JStr (clock pf)),
                        (''transport'', JStr ''StreamableHTTP''),
                        (''sdk'', JStr ''@modelcontextprotocol/sdk'')])\<rparr>"

definition handleOptionsRequest :: http_response where
  "handleOptionsRequest = \<lparr>statusCode = 200, headers = cors_headers, body = Inl []\<rparr>"

text \<open>
  \<open>main\<close>: the logger, then the routing on the method in lower case; an error thrown
  by the route is caught and answered with status 500 and code \<open>-32603\<close>, without
  \<open>data\<close>.
\<close>

definition main :: "platform \<Rightarrow> environment \<Rightarrow> ow_params \<Rightarrow> http_response" where
  "main pf env params =
     (case logger_error pf of
        Some msg \<Rightarrow>
          \<lparr>statusCode = 500, headers = [(''Content-Type'', ''application/json'')],
           body = Inr (JObj [(''error'', JStr (''Logger creation error: '' @ msg))])\<rparr>
      | None \<Rightarrow>
          (let m = map_option toLowerCase (ow_method params) in
           if m = Some ''get'' then handleHealthCheck pf
           else if m = Some ''options'' then handleOptionsRequest
           else if m = Some ''post''
           then (case handleMcpRequest pf env params of
                   Inr result \<Rightarrow> result
                 | Inl error \<Rightarrow>
                     \<lparr>statusCode = 500, headers = error_headers,
                      body = Inr (rpc_error (- 32603)
                                    (''Unhandled server error: '' @ err_message error) None)\<rparr>)
           else \<lparr>statusCode = 405, headers = error_headers,
                 body = Inr (rpc_error (- 32000)
                               (''Method '' @ [CHR 0x27]
                                  @ (case ow_method params of None \<Rightarrow> ''undefined''
                                     | Some x \<Rightarrow> x)
                                  @ [CHR 0x27] @ '' not allowed. Supported: GET, POST, OPTIONS'')
                               None)\<rparr>))"

section \<open>Objects as references\<close>

text \<open>
  To speak of what \<open>replaceValuesInMetadata\<close> writes and what it shares, objects and
  arrays are cells of a store and a value refers to a cell by its address. A new cell is
  added at the end of the store. The recursion of the source follows references, so the
  model counts its depth: with too little fuel, or a reference to no cell, it gives no
  result.
\<close>

datatype jsval = VNull | VBool bool | VNum int | VStr string | VRef nat

datatype cell = ObjCell "(string \<times> jsval) list" | ArrCell "jsval list"

type_synonym store = "cell list"

definition cell_entries :: "cell \<Rightarrow> (string \<times> jsval) list" where
  "cell_entries c =
     (case c of ObjCell es \<Rightarrow> es | ArrCell xs \<Rightarrow> zip (index_keys (length xs)) xs)"

text \<open>\<open>replaced[key] = value\<close> on the object at address \<open>r\<close>.\<close>

definition assign :: "store \<Rightarrow> nat \<Rightarrow> string \<Rightarrow> jsval \<Rightarrow> store" where
  "assign h r k v =
     (if r < length h
      then (case h ! r of ObjCell es \<Rightarrow> h[r := ObjCell (set_prop es k v)] | ArrCell xs \<Rightarrow> h)
      else h)"

definition replace_element :: "string \<Rightarrow> string \<Rightarrow> jsval \<Rightarrow> jsval" where
  "replace_element sv rv item =
     (case item of VStr v \<Rightarrow> VStr (replace_value sv rv v) | _ \<Rightarrow> item)"

fun replaceValuesInMetadata_ref ::
    "nat \<Rightarrow> store \<Rightarrow> jsval \<Rightarrow> string \<Rightarrow> string \<Rightarrow> (jsval \<times> store) option"
  and replace_loop ::
    "nat \<Rightarrow> store \<Rightarrow> nat \<Rightarrow> (string \<times> jsval) list \<Rightarrow> string \<Rightarrow> string \<Rightarrow> store option" where
  "replaceValuesInMetadata_ref 0 h metadata sv rv = None"
| "replaceValuesInMetadata_ref (Suc n) h metadata sv rv =
     (case metadata of
        VRef a \<Rightarrow>
          if a < length h
          then (case replace_loop n (h @ [ObjCell []]) (length h) (cell_entries (h ! a)) sv rv of
                  None \<Rightarrow> None
                | Some h' \<Rightarrow> Some (VRef (length h), h'))
          else None
      | _ \<Rightarrow> Some (metadata, h))"
| "replace_loop n h r [] sv rv = Some h"
| "replace_loop n h r ((k, v) # es) sv rv =
     (case v of
        VStr t \<Rightarrow> replace_loop n (assign h r k (VStr (replace_value sv rv t))) r es sv rv
      | VRef a \<Rightarrow>
          if a < length h
          then (case h ! a of
                  ArrCell items \<Rightarrow>
                    replace_loop n
                      (assign (h @ [ArrCell (map (replace_element sv rv) items)]) r k
                         (VRef (length h)))
                      r es sv rv
                | ObjCell fs \<Rightarrow>
                    (case replaceValuesInMetadata_ref n h (VRef a) sv rv of
                       None \<Rightarrow> None
                     | Some (v', h') \<Rightarrow> replace_loop n (assign h' r k v') r es sv rv))
          else None
      | _ \<Rightarrow> replace_loop n (assign h r k v) r es sv rv)"

text \<open>The addresses that a cell holds.\<close>

fun refs_of_values :: "jsval list \<Rightarrow> nat list" where
  "refs_of_values [] = []"
| "refs_of_values (VRef a # vs) = a # refs_of_values vs"
| "refs_of_values (v # vs) = refs_of_values vs"

definition refs_of :: "cell \<Rightarrow> nat list" where
  "refs_of c = (case c of ObjCell es \<Rightarrow> refs_of_values (map snd es)
                | ArrCell xs \<Rightarrow> refs_of_values xs)"

text \<open>
  A store without cycles, as parsing JSON gives it: every cell holds addresses of the
  store only, each of a lower rank than its own.
\<close>

definition acyclic_store :: "(nat \<Rightarrow> nat) \<Rightarrow> store \<Rightarrow> bool" where
  "acyclic_store rank h =
     list_all (\<lambda>a. list_all (\<lambda>b. b < length h \<and> rank b < rank a) (refs_of (h ! a)))
       [0..<length h]"

text \<open>In the cells from address \<open>n\<close> on, every address held by an object is \<open>n\<close> or more.\<close>

definition fresh_fields :: "nat \<Rightarrow> store \<Rightarrow> bool" where
  "fresh_fields n h =
     list_all (\<lambda>c. case c of ObjCell es \<Rightarrow> list_all (\<lambda>b. n \<le> b) (refs_of_values (map snd es))
                     | ArrCell xs \<Rightarrow> True)
       (drop n h)"

section \<open>Example inputs\<close>

definition no_environment :: environment where
  "no_environment =
     \<lparr>AEM_AUTHOR_URL = None, AEM_TOKEN = None, AEM_USERNAME = None, AEM_PASSWORD = None,
      LOG_LEVEL = None\<rparr>"


text \<open>
  A repository that counts the requests it has seen and answers 200 to each, except
  that it answers 500 for the page \<open>about\<close> of the test site.
\<close>

definition flaky_remote :: "nat remote" where
  "flaky_remote w req =
     (if req_url req = ''/content/test-site/about'' then Response 500 JNull
      else Response 200 JNull, Suc w)"

definition start :: "nat sys" where
  "start = \<lparr>world = 0, trace = []\<rparr>"


definition test_site_args :: microsite_args where
  "test_site_args =
     \<lparr>a_siteName = None, a_siteTitle = ''Test Site'', a_authorUrl = None,
      a_username = Some ''admin'', a_password = Some ''admin'', a_token = None,
      a_templateType = None, a_pages = None, a_parentPath = None,
      a_overwrite = Some True\<rparr>"

definition anonymous_args :: microsite_args where
  "anonymous_args = test_site_args\<lparr>a_username := None, a_password := None\<rparr>"

text \<open>
  A repository that holds one asset: \<open>HEAD\<close> answers 200, \<open>GET\<close> answers 200 with the
  given metadata, \<open>POST\<close> answers 412 and \<open>DELETE\<close> answers 405.
\<close>

definition asset_remote :: "json \<Rightarrow> unit remote" where
  "asset_remote metadata w req =
     (case req_method req of
        HEAD \<Rightarrow> Response 200 JNull
      | GET \<Rightarrow> Response 200 metadata
      | POST \<Rightarrow> Response 412 JNull
      | DELETE \<Rightarrow> Response 405 JNull, ())"

definition idle :: "unit sys" where
  "idle = \<lparr>world = (), trace = []\<rparr>"



text \<open>
  A platform whose \<open>JSON.parse\<close> accepts the text \<open>{}\<close> only and whose exchange
  throws.
\<close>

definition strict_platform :: platform where
  "strict_platform =
     \<lparr>JSON_parse = (\<lambda>t. if t = ''{}'' then Inr (JObj []) else Inl ''Unexpected token''),
      base64_utf8 = (\<lambda>t. []),
      logger_error = None,
      sdk_exchange = (\<lambda>r. Inl (new_Error ''Server not initialized'')),
      error_stack = (\<lambda>e. ''Error: '' @ err_message e),
      clock = ''2026-01-01T00:00:00.000Z''\<rparr>"

definition debug_environment :: environment where
  "debug_environment = no_environment\<lparr>LOG_LEVEL := Some ''debug''\<rparr>"

definition invalid_post :: ow_params where
  "invalid_post =
     \<lparr>ow_method = Some ''post'', ow_body = Some (BodyText ''invalid json''), ow_session = None\<rparr>"

definition empty_post :: ow_params where
  "empty_post =
     \<lparr>ow_method = Some ''post'', ow_body = Some (BodyText ''{}''), ow_session = None\<rparr>"

text \<open>A store that holds an object, its array and the object inside the array.\<close>

definition tags_store :: store where
  "tags_store =
     [ObjCell [(''dc:title'', VStr ''Ford''), (''tags'', VRef 1)],
      ArrCell [VRef 2, VStr ''ford''],
      ObjCell [(''label'', VStr ''ford'')]]"

definition nested_store :: store where
  "nested_store =
     [ObjCell [(''dc:title'', VStr ''Ford''), (''details'', VRef 1), (''dc:subject'', VRef 2)],
      ObjCell [(''brand'', VStr ''ford'')],
      ArrCell [VStr ''FORD'', VNum 2]]"

definition nested_rank :: "nat \<Rightarrow> nat" where
  "nested_rank a = (if a = 0 then 1 else 0)"



section \<open>Properties of string replacement\<close>

lemma replace_class_single:
  "js_replace_all (match_class P) [x] pre s = map (\<lambda>c. if P c then x else c) s"
  by (induction s arbitrary: pre) (auto simp: match_class_def)

lemma subst_escape:
  "get_substitution m b a [backslash, CHR ''$'', CHR ''&''] = backslash # m"
  by (simp add: backslash_def)

lemma replace_class_escape:
  "js_replace_all (match_class P) [backslash, CHR ''$'', CHR ''&''] pre s
     = concat (map (\<lambda>c. if P c then [backslash, c] else [c]) s)"
  by (induction s arbitrary: pre)
     (auto simp: match_class_def subst_escape simp del: get_substitution.simps)

lemma ws_run_no_space:
  "list_all (\<lambda>c. \<not> is_space c) s \<Longrightarrow> js_replace_all match_ws_run repl pre s = s"
  by (induction s arbitrary: pre) (auto simp: match_ws_run_def)

lemma ws_run_nonempty:
  "s \<noteq> [] \<Longrightarrow> js_replace_all match_ws_run ''-'' pre s \<noteq> []"
  by (cases s) (auto simp: match_ws_run_def Let_def split: nat.splits)

section \<open>Properties of site names\<close>

lemma lower_char_id: "c \<notin> set ascii_upper \<Longrightarrow> lower_char c = c"
proof -
  assume a: "c \<notin> set ascii_upper"
  have len: "length ascii_upper = length ascii_lower"
    by (simp add: ascii_upper_def ascii_lower_def)
  have "map_of (zip ascii_upper ascii_lower) c = None"
    using a map_of_zip_is_None[OF len, of c] by simp
  then show ?thesis by (simp add: lower_char_def)
qed

lemma slug_not_upper: "slug_char c \<Longrightarrow> c \<notin> set ascii_upper"
  unfolding slug_char_def ascii_lower_def ascii_upper_def ascii_digit_def
  by auto

lemma slug_lower: "slug_char c \<Longrightarrow> lower_char c = c"
  by (rule lower_char_id[OF slug_not_upper])

lemma slug_not_space: "slug_char c \<Longrightarrow> \<not> is_space c"
  unfolding slug_char_def is_space_def ascii_lower_def ascii_digit_def
  by auto

lemma sanitize_slug: "list_all slug_char (sanitize s)"
  by (auto simp: sanitize_def replace_g_def replace_class_single list_all_iff slug_char_def)

lemma sanitize_fixes_slug:
  assumes "list_all slug_char t"
  shows "sanitize t = t"
proof -
  have lower: "toLowerCase t = t"
    using assms by (simp add: toLowerCase_def list_all_iff slug_lower map_idI)
  have spaces: "hyphenate_spaces t = t"
    using assms
    by (simp add: hyphenate_spaces_def replace_g_def ws_run_no_space list_all_iff slug_not_space)
  show ?thesis
    using assms
    by (simp add: sanitize_def lower spaces replace_g_def replace_class_single list_all_iff map_idI)
qed

lemma trim_nonempty: "trim s \<noteq> [] \<Longrightarrow> s \<noteq> []"
  by (auto simp: trim_def)

lemma sanitize_nonempty: "s \<noteq> [] \<Longrightarrow> sanitize s \<noteq> []"
  using ws_run_nonempty[of "toLowerCase s" "[]"]
  by (simp add: sanitize_def replace_g_def replace_class_single hyphenate_spaces_def
      toLowerCase_def)

text \<open>
  Claim C3. The name sanitization of \<open>createSite\<close> is idempotent, and on every
  string that is not empty after trimming its result matches \<open>^[a-z0-9-]+$\<close>.
\<close>

theorem sanitize_idempotent_slug:
  "sanitize (sanitize s) = sanitize s \<and> (trim s \<noteq> [] \<longrightarrow> matches_slug (sanitize s))"
proof
  show "sanitize (sanitize s) = sanitize s"
    by (rule sanitize_fixes_slug[OF sanitize_slug])
  show "trim s \<noteq> [] \<longrightarrow> matches_slug (sanitize s)"
    using sanitize_slug[of s] sanitize_nonempty[of s] trim_nonempty[of s]
    by (auto simp: matches_slug_def)
qed

theorem sanitize_idempotent_slug_witness:
  "trim ''My Awesome Site!'' \<noteq> []
   \<and> sanitize ''My Awesome Site!'' = ''my-awesome-site-''
   \<and> sanitize (sanitize ''My Awesome Site!'') = sanitize ''My Awesome Site!''
   \<and> matches_slug (sanitize ''My Awesome Site!'')"
proof -
  have t: "trim ''My Awesome Site!'' \<noteq> []" by code_simp
  have v: "sanitize ''My Awesome Site!'' = ''my-awesome-site-''" by code_simp
  show ?thesis
    using t v sanitize_idempotent_slug[of "''My Awesome Site!''"] by simp
qed

section \<open>Properties of predicate escaping\<close>

text \<open>
  Claim C6. The glob escaper puts a backslash before each of \<open>\ * ? [ ] { }\<close> and
  changes nothing else; the LIKE escaper puts a backslash before each of \<open>\ % _\<close>
  and changes nothing else. Neither touches the other's wildcards: \<open>50%_off\<close> has
  both wildcards escaped by the LIKE escaper and is left alone by the glob escaper, and
  \<open>a[1].png\<close> has both brackets escaped by the glob escaper and is left alone by the
  LIKE escaper.
\<close>

theorem escaping_two_alphabets:
  "escapeGlobValue s = concat (map (\<lambda>c. if glob_special c then [backslash, c] else [c]) s)
   \<and> escapeLikeValue s = concat (map (\<lambda>c. if like_special c then [backslash, c] else [c]) s)
   \<and> (glob_special c \<longleftrightarrow>
         c \<in> {CHR 0x5C, CHR ''*'', CHR ''?'', CHR ''['', CHR '']'', CHR ''{'', CHR ''}''})
   \<and> (like_special c \<longleftrightarrow> c \<in> {CHR 0x5C, CHR ''%'', CHR ''_''})
   \<and> escapeLikeValue ''50%_off'' = ''50'' @ [CHR 0x5C] @ ''%'' @ [CHR 0x5C] @ ''_off''
   \<and> escapeGlobValue ''50%_off'' = ''50%_off''
   \<and> escapeGlobValue ''a[1].png'' = ''a'' @ [CHR 0x5C] @ ''[1'' @ [CHR 0x5C] @ ''].png''
   \<and> escapeLikeValue ''a[1].png'' = ''a[1].png''"
proof -
  have g: "escapeGlobValue s = concat (map (\<lambda>c. if glob_special c then [backslash, c] else [c]) s)"
    by (simp add: escapeGlobValue_def replace_g_def replace_class_escape)
  have l: "escapeLikeValue s = concat (map (\<lambda>c. if like_special c then [backslash, c] else [c]) s)"
    by (simp add: escapeLikeValue_def replace_g_def replace_class_escape)
  have gs: "glob_special c \<longleftrightarrow>
         c \<in> {CHR 0x5C, CHR ''*'', CHR ''?'', CHR ''['', CHR '']'', CHR ''{'', CHR ''}''}"
    by (simp add: glob_special_def backslash_def)
  have ls: "like_special c \<longleftrightarrow> c \<in> {CHR 0x5C, CHR ''%'', CHR ''_''}"
    by (simp add: like_special_def backslash_def)
  have e1: "escapeLikeValue ''50%_off'' = ''50'' @ [CHR 0x5C] @ ''%'' @ [CHR 0x5C] @ ''_off''"
    by code_simp
  have e2: "escapeGlobValue ''50%_off'' = ''50%_off''" by code_simp
  have e3: "escapeGlobValue ''a[1].png'' = ''a'' @ [CHR 0x5C] @ ''[1'' @ [CHR 0x5C] @ ''].png''"
    by code_simp
  have e4: "escapeLikeValue ''a[1].png'' = ''a[1].png''" by code_simp
  show ?thesis using g l gs ls e1 e2 e3 e4 by blast
qed

section \<open>Properties of the credential resolver\<close>



section \<open>Properties of the microsite client\<close>

lemma axios_run:
  "axios remote v req s =
     (if resolves v (fst (remote (world s) req))
      then Inr (case fst (remote (world s) req) of Response st d \<Rightarrow> (st, d) | NetworkError m \<Rightarrow> (0, JNull))
      else Inl (rejection (fst (remote (world s) req))),
      \<lparr>world = snd (remote (world s) req),
       trace = trace s @ [Http req (fst (remote (world s) req))]\<rparr>)"
  by (auto simp: axios_def resolves_def Let_def split: prod.splits http_outcome.splits)

lemma new_events_append: "trace s' = trace s @ evs \<Longrightarrow> new_events s s' = evs"
  by (simp add: new_events_def)

lemma http_of_append: "http_of (xs @ ys) = http_of xs @ http_of ys"
  by (induction xs rule: http_of.induct) auto

lemma warnings_append: "warnings (xs @ ys) = warnings xs @ warnings ys"
  by (induction xs rule: warnings.induct) auto

lemma effects_append: "effects (xs @ ys) = effects xs @ effects ys"
  by (induction xs rule: effects.induct) auto

lemma createPage_run:
  "createPage remote url (page_config_of sp p) s =
     (if resolves default_validate (fst (remote (world s) (page_request (page_config_of sp p))))
      then Inr (page_result_of url sp p)
      else Inl (new_Error (''Failed to create page: ''
             @ err_message (rejection (fst (remote (world s) (page_request (page_config_of sp p))))))),
      \<lparr>world = snd (remote (world s) (page_request (page_config_of sp p))),
       trace = trace s @ [Http (page_request (page_config_of sp p))
                            (fst (remote (world s) (page_request (page_config_of sp p))))]\<rparr>)"
  by (simp add: createPage_def axios_run page_result_of_def page_config_of_def)

lemma create_pages_run:
  "\<exists>outs evs. 
      trace (snd (create_pages remote url sp pages acc s)) = trace s @ evs
    \<and> http_of evs = zip (map (\<lambda>p. page_request (page_config_of sp p)) pages) outs
    \<and> length outs = length pages
    \<and> fst (create_pages remote url sp pages acc s)
        = acc @ map (\<lambda>(p, out). page_result_of url sp p)
                  (filter (\<lambda>(p, out). resolves default_validate out) (zip pages outs))
    \<and> warnings evs = map (\<lambda>(p, out). page_warning p out)
                  (filter (\<lambda>(p, out). \<not> resolves default_validate out) (zip pages outs))
    \<and> effects evs = map (\<lambda>(q, out). Http q out) (http_of evs)"
proof (induction pages arbitrary: acc s)
  case Nil
  show ?case by simp
next
  case (Cons p pages)
  let ?q = "page_request (page_config_of sp p)"
  let ?out = "fst (remote (world s) ?q)"
  let ?s1 = "\<lparr>world = snd (remote (world s) ?q), trace = trace s @ [Http ?q ?out]\<rparr>"
  show ?case
  proof (cases "resolves default_validate ?out")
    case True
    from Cons.IH[of "acc @ [page_result_of url sp p]" ?s1]
    obtain outs evs where h:
      "trace (snd (create_pages remote url sp pages (acc @ [page_result_of url sp p]) ?s1)) = trace ?s1 @ evs"
      "http_of evs = zip (map (\<lambda>p. page_request (page_config_of sp p)) pages) outs"
      "length outs = length pages"
      "fst (create_pages remote url sp pages (acc @ [page_result_of url sp p]) ?s1)
        = (acc @ [page_result_of url sp p]) @ map (\<lambda>(p, out). page_result_of url sp p)
                  (filter (\<lambda>(p, out). resolves default_validate out) (zip pages outs))"
      "warnings evs = map (\<lambda>(p, out). page_warning p out)
                  (filter (\<lambda>(p, out). \<not> resolves default_validate out) (zip pages outs))"
      "effects evs = map (\<lambda>(q, out). Http q out) (http_of evs)"
      by blast
    show ?thesis
      apply (rule exI[of _ "?out # outs"])
      apply (rule exI[of _ "Http ?q ?out # evs"])
      using True h by (simp add: createPage_run)
  next
    case False
    let ?s2 = "emit (ConsoleWarn (page_warning p ?out)) ?s1"
    from Cons.IH[of acc ?s2]
    obtain outs evs where h:
      "trace (snd (create_pages remote url sp pages acc ?s2)) = trace ?s2 @ evs"
      "http_of evs = zip (map (\<lambda>p. page_request (page_config_of sp p)) pages) outs"
      "length outs = length pages"
      "fst (create_pages remote url sp pages acc ?s2)
        = acc @ map (\<lambda>(p, out). page_result_of url sp p)
                  (filter (\<lambda>(p, out). resolves default_validate out) (zip pages outs))"
      "warnings evs = map (\<lambda>(p, out). page_warning p out)
                  (filter (\<lambda>(p, out). \<not> resolves default_validate out) (zip pages outs))"
      "effects evs = map (\<lambda>(q, out). Http q out) (http_of evs)"
      by blast
    show ?thesis
      apply (rule exI[of _ "?out # outs"])
      apply (rule exI[of _ "Http ?q ?out # ConsoleWarn (page_warning p ?out) # evs"])
      using False h by (simp add: createPage_run emit_def page_warning_def new_Error_def)
  qed
qed

lemma createSite_run:
  assumes "present (sc_siteTitle cfg)"
  shows "createSite remote url cfg s =
     (if resolves default_validate (fst (remote (world s) (site_request cfg)))
      then Inr \<lparr>sr_success = True, sr_sitePath = site_path cfg,
                sr_siteName = sanitize (if \<not> present (sc_siteName cfg)
                                        then derive_name (text_of (sc_siteTitle cfg))
                                        else text_of (sc_siteName cfg)),
                sr_siteTitle = text_of (sc_siteTitle cfg),
                sr_authorUrl = url @ ''/editor.html'' @ site_path cfg @ ''.html'',
                sr_message = ''Site created successfully''\<rparr>
      else Inl (new_Error (''Failed to create site: ''
             @ err_message (rejection (fst (remote (world s) (site_request cfg)))))),
      \<lparr>world = snd (remote (world s) (site_request cfg)),
       trace = trace s @ [Http (site_request cfg) (fst (remote (world s) (site_request cfg)))]\<rparr>)"
  using assms by (simp add: createSite_def axios_run Let_def)




section \<open>Properties of the overwrite flow\<close>

lemma createMicrosite_effects:
  assumes "present (mc_siteTitle cfg)"
  shows "\<exists>evs out3 page_events.
      trace (snd (createMicrosite remote url cfg s)) = trace s @ evs
    \<and> effects evs = Http (site_request (microsite_site_config cfg)) out3 # page_events
    \<and> out3 = fst (remote (world s) (site_request (microsite_site_config cfg)))
    \<and> (\<forall>e \<in> set page_events. \<exists>q out. e = Http q out \<and> req_method q = POST
           \<and> req_url q \<noteq> site_path (microsite_site_config cfg))"
proof -
  let ?sc = "microsite_site_config cfg"
  let ?out0 = "fst (remote (world s) (site_request ?sc))"
  let ?s1 = "\<lparr>world = snd (remote (world s) (site_request ?sc)),
              trace = trace s @ [Http (site_request ?sc) ?out0]\<rparr>"
  let ?sp = "site_path ?sc"
  let ?pages = "microsite_pages cfg"
  have title: "present (sc_siteTitle ?sc)"
    using assms by (simp add: microsite_site_config_def)
  show ?thesis
  proof (cases "resolves default_validate ?out0")
    case False
    have "trace (snd (createMicrosite remote url cfg s)) = trace s @ [Http (site_request ?sc) ?out0]"
      using False title by (simp add: createMicrosite_def createSite_run)
    then show ?thesis by auto
  next
    case True
    obtain outs evs where h:
      "trace (snd (create_pages remote url ?sp ?pages [] ?s1)) = trace ?s1 @ evs"
      "http_of evs = zip (map (\<lambda>p. page_request (page_config_of ?sp p)) ?pages) outs"
      "effects evs = map (\<lambda>(q, out). Http q out) (http_of evs)"
      using create_pages_run[of remote url ?sp ?pages "[]" ?s1] by blast
    have tr: "trace (snd (createMicrosite remote url cfg s))
        = trace s @ Http (site_request ?sc) ?out0 # evs"
      using True title h(1)
      by (simp add: createMicrosite_def createSite_run case_prod_beta)
    have pe: "\<forall>e \<in> set (effects evs). \<exists>q out. e = Http q out \<and> req_method q = POST
           \<and> req_url q \<noteq> ?sp"
      unfolding h(3) h(2)
      by (auto simp: page_request_def request_def page_config_of_def dest!: set_zip_leftD)
    have "effects (Http (site_request ?sc) ?out0 # evs) = Http (site_request ?sc) ?out0 # effects evs"
      by simp
    then show ?thesis using tr pe by blast
  qed
qed

lemma overwrite_delete_run:
  "\<exists>evs sleeps.
      trace (overwrite_delete remote sp s) = trace s @ evs
    \<and> effects evs
        = Http (delete_request sp) (fst (remote (world s) (delete_request sp)))
          # (if resolves default_validate (fst (remote (world s) (delete_request sp))) then []
             else [Http (delete_request sp)
                     (fst (remote (snd (remote (world s) (delete_request sp))) (delete_request sp)))])
          @ sleeps
    \<and> (sleeps = [] \<or> sleeps = [Sleep 500])
    \<and> (resolves default_validate (fst (remote (world s) (delete_request sp)))
         \<or> (\<exists>d. fst (remote (snd (remote (world s) (delete_request sp))) (delete_request sp))
                 \<in> {Response 200 d, Response 204 d, Response 404 d})
        \<longrightarrow> sleeps = [Sleep 500])"
proof -
  let ?del = "delete_request sp"
  let ?out1 = "fst (remote (world s) ?del)"
  let ?w1 = "snd (remote (world s) ?del)"
  let ?out2 = "fst (remote ?w1 ?del)"
  show ?thesis
  proof (cases "resolves default_validate ?out1")
    case True
    then have "trace (overwrite_delete remote sp s)
        = trace s @ [Http ?del ?out1, ConsoleLog (''Deleted existing site at '' @ sp), Sleep 500]"
      by (simp add: overwrite_delete_def deleteSite_def axios_run settle_def emit_def
          delete_request_def)
    then show ?thesis using True by auto
  next
    case False
    note first = False
    show ?thesis
    proof (cases "resolves (\<lambda>status. status < 500) ?out2")
      case True
      then obtain st d where out2: "?out2 = Response st d" "st < 500"
        by (auto simp: resolves_def split: http_outcome.splits)
      consider "st = 200 \<or> st = 204 \<or> st = 404" | "st \<noteq> 200 \<and> st \<noteq> 204 \<and> st \<noteq> 404" by blast
      then show ?thesis
      proof cases
        case 1
        then have "\<exists>m. trace (overwrite_delete remote sp s)
            = trace s @ [Http ?del ?out1, Http ?del ?out2, ConsoleLog m, Sleep 500]"
          using first True out2
          by (auto simp: overwrite_delete_def deleteSite_def axios_run settle_def emit_def
              delete_request_def)
        then show ?thesis using first by auto
      next
        case 2
        then have "\<exists>m. trace (overwrite_delete remote sp s)
            = trace s @ [Http ?del ?out1, Http ?del ?out2, ConsoleWarn m]"
          using first True out2
          by (auto simp: overwrite_delete_def deleteSite_def axios_run settle_def emit_def
              delete_request_def)
        then show ?thesis using first 2 out2 by auto
      qed
    next
      case False
      then have no: "\<forall>d. ?out2 \<notin> {Response 200 d, Response 204 d, Response 404 d}"
        by (auto simp: resolves_def)
      have "(\<exists>m1 m2 m3. trace (overwrite_delete remote sp s)
            = trace s @ [Http ?del ?out1, Http ?del ?out2, ConsoleWarn m1, ConsoleWarn m2,
                         ConsoleWarn m3])
          \<or> trace (overwrite_delete remote sp s)
            = trace s @ [Http ?del ?out1, Http ?del ?out2, Sleep 500]"
        using first False
        by (auto simp: overwrite_delete_def deleteSite_def axios_run settle_def emit_def
            delete_request_def Let_def)
      then show ?thesis using first no by auto
    qed
  qed
qed

lemma tool_final_name:
  assumes "a_siteTitle args \<noteq> []"
  shows "\<exists>name.
      (if \<not> present (a_siteName args) \<and> a_siteTitle args \<noteq> []
       then Some (derive_name (a_siteTitle args)) else a_siteName args) = Some name
    \<and> or_default (a_parentPath args) ''/content'' @ ''/'' @ sanitize name = tool_site_path args"
proof (cases "present (a_siteName args)")
  case True
  then obtain n where "a_siteName args = Some n" "n \<noteq> []"
    by (auto simp: present_def split: option.splits)
  then show ?thesis
    using assms
    by (simp add: tool_site_path_def site_path_def microsite_site_config_def args_microsite_def
        present_def text_of_def or_default_def)
next
  case False
  then show ?thesis
    using assms
    by (simp add: tool_site_path_def site_path_def microsite_site_config_def args_microsite_def
        present_def text_of_def or_default_def)
qed

lemma tool_run:
  assumes "a_overwrite args = Some True"
    and "getAEMCredentials (args_credentials args) env = Inr (authorUrl, creds)"
    and "a_siteTitle args \<noteq> []"
  shows "snd (aem_create_microsite remote env args s)
     = snd (createMicrosite remote (strip_trailing_slash authorUrl) (args_microsite args)
              (overwrite_delete remote (tool_site_path args) s))"
proof -
  obtain name where n:
    "(if \<not> present (a_siteName args) \<and> a_siteTitle args \<noteq> []
       then Some (derive_name (a_siteTitle args)) else a_siteName args) = Some name"
    "or_default (a_parentPath args) ''/content'' @ ''/'' @ sanitize name = tool_site_path args"
    using tool_final_name[OF assms(3)] by blast
  show ?thesis
    unfolding aem_create_microsite_def assms(1,2) Let_def n(1)
    using n(2) by (auto split: prod.splits sum.splits)
qed

text \<open>
  Claim C1, for a call whose credentials resolve and whose title is not empty. With
  \<open>overwrite = true\<close> the handler sends \<open>DELETE\<close> for the site path once through
  \<open>deleteSite\<close>, and a second time directly only if the first was rejected; it then
  waits 500 ms at most once, and it does wait whenever the first \<open>DELETE\<close> succeeded or
  the direct one answered 200, 204 or 404; then it sends exactly one \<open>POST\<close> for the site
  path. Whatever follows are the \<open>POST\<close>s of the pages, at other paths: nothing is
  deleted and the site is not created a second time.
\<close>

theorem overwrite_flow:
  assumes "a_overwrite args = Some True"
    and "getAEMCredentials (args_credentials args) env = Inr (authorUrl, creds)"
    and "a_siteTitle args \<noteq> []"
  shows "\<exists>sleeps out3 page_events.
      effects (new_events s (snd (aem_create_microsite remote env args s)))
        = Http (delete_request (tool_site_path args))
               (fst (remote (world s) (delete_request (tool_site_path args))))
          # (if resolves default_validate
                  (fst (remote (world s) (delete_request (tool_site_path args))))
             then []
             else [Http (delete_request (tool_site_path args))
                     (fst (remote (snd (remote (world s) (delete_request (tool_site_path args))))
                            (delete_request (tool_site_path args))))])
          @ sleeps
          @ Http (tool_site_request args) out3 # page_events
    \<and> (sleeps = [] \<or> sleeps = [Sleep 500])
    \<and> (resolves default_validate (fst (remote (world s) (delete_request (tool_site_path args))))
         \<or> (\<exists>d. fst (remote (snd (remote (world s) (delete_request (tool_site_path args))))
                       (delete_request (tool_site_path args)))
                 \<in> {Response 200 d, Response 204 d, Response 404 d})
        \<longrightarrow> sleeps = [Sleep 500])
    \<and> req_method (tool_site_request args) = POST
    \<and> req_url (tool_site_request args) = tool_site_path args
    \<and> (\<forall>e \<in> set page_events. \<exists>q out. e = Http q out \<and> req_method q = POST
           \<and> req_url q \<noteq> tool_site_path args)"
proof -
  let ?sp = "tool_site_path args"
  let ?s1 = "overwrite_delete remote ?sp s"
  let ?cfg = "args_microsite args"
  let ?s2 = "snd (createMicrosite remote (strip_trailing_slash authorUrl) ?cfg ?s1)"
  obtain evs1 sleeps where d:
    "trace ?s1 = trace s @ evs1"
    "effects evs1
        = Http (delete_request ?sp) (fst (remote (world s) (delete_request ?sp)))
          # (if resolves default_validate (fst (remote (world s) (delete_request ?sp))) then []
             else [Http (delete_request ?sp)
                     (fst (remote (snd (remote (world s) (delete_request ?sp))) (delete_request ?sp)))])
          @ sleeps"
    "sleeps = [] \<or> sleeps = [Sleep 500]"
    "resolves default_validate (fst (remote (world s) (delete_request ?sp)))
         \<or> (\<exists>d. fst (remote (snd (remote (world s) (delete_request ?sp))) (delete_request ?sp))
                 \<in> {Response 200 d, Response 204 d, Response 404 d})
        \<longrightarrow> sleeps = [Sleep 500]"
    using overwrite_delete_run[of remote ?sp s] by blast
  have title: "present (mc_siteTitle ?cfg)"
    using assms(3) by (simp add: args_microsite_def present_def)
  obtain evs2 out3 page_events where c:
    "trace ?s2 = trace ?s1 @ evs2"
    "effects evs2 = Http (site_request (microsite_site_config ?cfg)) out3 # page_events"
    "\<forall>e \<in> set page_events. \<exists>q out. e = Http q out \<and> req_method q = POST
           \<and> req_url q \<noteq> site_path (microsite_site_config ?cfg)"
    using createMicrosite_effects[OF title, of remote "strip_trailing_slash authorUrl" ?s1]
    by blast
  have run: "snd (aem_create_microsite remote env args s) = ?s2"
    by (rule tool_run[OF assms])
  have "new_events s ?s2 = evs1 @ evs2"
    using d(1) c(1) by (simp add: new_events_def)
  then have eff: "effects (new_events s (snd (aem_create_microsite remote env args s)))
      = effects evs1 @ Http (tool_site_request args) out3 # page_events"
    using c(2) by (simp add: run effects_append tool_site_request_def)
  have req: "req_method (tool_site_request args) = POST"
    "req_url (tool_site_request args) = ?sp"
    by (simp_all add: tool_site_request_def tool_site_path_def site_request_def request_def)
  have pages: "\<forall>e \<in> set page_events. \<exists>q out. e = Http q out \<and> req_method q = POST
           \<and> req_url q \<noteq> ?sp"
    using c(3) by (simp add: tool_site_path_def)
  show ?thesis
    apply (rule exI[of _ sleeps])
    apply (rule exI[of _ out3])
    apply (rule exI[of _ page_events])
    using eff d(2,3,4) req pages by simp
qed

text \<open>
  The claim as it is written speaks of every invocation with \<open>overwrite = true\<close>. A call
  for which no credentials resolve is answered before the overwrite block: it deletes
  nothing and creates nothing.
\<close>

theorem overwrite_flow_counterexample:
  "a_overwrite anonymous_args = Some True
   \<and> fst (aem_create_microsite flaky_remote no_environment anonymous_args start)
       = AuthenticationRequired (auth_error_message no_environment)
   \<and> new_events start (snd (aem_create_microsite flaky_remote no_environment anonymous_args start))
       = []"
  by code_simp

theorem overwrite_flow_witness:
  "a_overwrite test_site_args = Some True
   \<and> getAEMCredentials (args_credentials test_site_args) no_environment
       = Inr (''https://author-p18253-e46622.adobeaemcloud.com'', BasicAuth ''admin'' ''admin'')
   \<and> a_siteTitle test_site_args \<noteq> []
   \<and> tool_site_path test_site_args = ''/content/test-site''
   \<and> (\<exists>out3 page_events.
         effects (new_events start
                   (snd (aem_create_microsite flaky_remote no_environment test_site_args start)))
           = Http (delete_request ''/content/test-site'') (Response 200 JNull) # Sleep 500
             # Http (tool_site_request test_site_args) out3 # page_events)
   \<and> map (\<lambda>(q, out). (req_method q, req_url q))
         (http_of (new_events start
                    (snd (aem_create_microsite flaky_remote no_environment test_site_args start))))
       = [(DELETE, ''/content/test-site''), (POST, ''/content/test-site''),
          (POST, ''/content/test-site/main''), (POST, ''/content/test-site/about''),
          (POST, ''/content/test-site/contact'')]"
proof -
  have h1: "a_overwrite test_site_args = Some True" by code_simp
  have h2: "getAEMCredentials (args_credentials test_site_args) no_environment
       = Inr (''https://author-p18253-e46622.adobeaemcloud.com'', BasicAuth ''admin'' ''admin'')"
    by code_simp
  have h3: "a_siteTitle test_site_args \<noteq> []" by code_simp
  have p: "tool_site_path test_site_args = ''/content/test-site''" by code_simp
  have o1: "fst (flaky_remote (world start) (delete_request ''/content/test-site''))
      = Response 200 JNull"
    by code_simp
  have ok: "resolves default_validate (Response 200 JNull)" by code_simp
  obtain sleeps out3 page_events where f:
    "effects (new_events start
               (snd (aem_create_microsite flaky_remote no_environment test_site_args start)))
       = Http (delete_request ''/content/test-site'') (Response 200 JNull)
         # sleeps @ Http (tool_site_request test_site_args) out3 # page_events"
    "sleeps = [Sleep 500]"
    using overwrite_flow[where args = test_site_args and env = no_environment
        and s = start and remote = flaky_remote, OF h1 h2 h3] ok unfolding p o1 by auto
  have e: "map (\<lambda>(q, out). (req_method q, req_url q))
         (http_of (new_events start
                    (snd (aem_create_microsite flaky_remote no_environment test_site_args start))))
       = [(DELETE, ''/content/test-site''), (POST, ''/content/test-site''),
          (POST, ''/content/test-site/main''), (POST, ''/content/test-site/about''),
          (POST, ''/content/test-site/contact'')]"
    by code_simp
  show ?thesis using h1 h2 h3 p f e by auto
qed

section \<open>Properties of the asset client\<close>

text \<open>
  Claim C8. A call of \<open>renameAsset\<close> whose asset path does not start with
  \<open>/content/dam/\<close> fails with a validation error and sends no request: the state of the
  system, trace included, is the one it started from.
\<close>

theorem renameAsset_validates_first:
  assumes "\<not> startsWith assetPath ''/content/dam/''"
  shows "\<exists>msg. renameAsset remote assetPath newName s = (Inl (rename_failed msg), s)
           \<and> msg \<in> {''Asset path and new name are required'',
                      ''Asset path must start with /content/dam/''}
           \<and> new_events s (snd (renameAsset remote assetPath newName s)) = []"
  using assms by (auto simp: renameAsset_def new_events_def)

theorem renameAsset_validates_first_witness:
  "\<not> startsWith ''/content/other/a.png'' ''/content/dam/''
   \<and> renameAsset (asset_remote JNull) ''/content/other/a.png'' ''b.png'' idle
       = (Inl (new_Error ''Failed to rename asset: Asset path must start with /content/dam/''), idle)
   \<and> new_events idle (snd (renameAsset (asset_remote JNull) ''/content/other/a.png'' ''b.png'' idle))
       = []"
proof -
  have h: "\<not> startsWith ''/content/other/a.png'' ''/content/dam/''" by code_simp
  have e: "renameAsset (asset_remote JNull) ''/content/other/a.png'' ''b.png'' idle
       = (Inl (new_Error ''Failed to rename asset: Asset path must start with /content/dam/''), idle)"
    by code_simp
  show ?thesis
    using h e renameAsset_validates_first[where assetPath = "''/content/other/a.png''"
        and remote = "asset_remote JNull" and newName = "''b.png''" and s = idle, OF h]
    by auto
qed













section \<open>Properties of the protocol adapter\<close>

lemma handleMcpRequest_failure:
  assumes "createCompatibleRequest pf params = Inl e
           \<or> (\<exists>req e'. createCompatibleRequest pf params = Inr req \<and> sdk_exchange pf req = Inl e')"
  shows "handleMcpRequest pf env params = Inl (new_Error ''req is not defined'')"
  using assms by (auto simp: handleMcpRequest_def handler_catch_def)

lemma main_failure:
  assumes "logger_error pf = None"
    and "map_option toLowerCase (ow_method params) = Some ''post''"
    and "createCompatibleRequest pf params = Inl e
         \<or> (\<exists>req e'. createCompatibleRequest pf params = Inr req \<and> sdk_exchange pf req = Inl e')"
  shows "main pf env params
     = \<lparr>statusCode = 500, headers = error_headers,
        body = Inr (rpc_error (- 32603) ''Unhandled server error: req is not defined'' None)\<rparr>"
proof -
  have "handleMcpRequest pf env params = Inl (new_Error ''req is not defined'')"
    by (rule handleMcpRequest_failure[OF assms(3)])
  then show ?thesis
    unfolding main_def Let_def assms(1) assms(2) by (simp add: new_Error_def)
qed

text \<open>
  Claim C7, on the code. A body that does not parse, and an exchange that throws, are
  both answered with status 500 and code \<open>-32603\<close>; but with \<open>LOG_LEVEL=debug\<close> the
  answer carries no \<open>data\<close> and so no stack trace: the \<open>catch\<close> block of
  \<open>handleMcpRequest\<close> throws before it builds its response, and the answer is the one
  of \<open>main\<close>. The last part shows what the block builds once it can see \<open>req\<close>.
\<close>

theorem failure_response_without_stack:
  "LOG_LEVEL debug_environment = Some ''debug''
   \<and> parseRequestBody strict_platform invalid_post
       = Inl (new_Error ''Failed to parse request body: Unexpected token'')
   \<and> main strict_platform debug_environment invalid_post
       = \<lparr>statusCode = 500, headers = error_headers,
          body = Inr (JObj [(''jsonrpc'', JStr ''2.0''),
                            (''error'', JObj [(''code'', JNum (- 32603)),
                                              (''message'',
                                               JStr ''Unhandled server error: req is not defined'')]),
                            (''id'', JNull)])\<rparr>
   \<and> main strict_platform debug_environment empty_post
       = main strict_platform debug_environment invalid_post
   \<and> handler_catch strict_platform debug_environment
         (Some \<lparr>rq_method = ''POST'', rq_session = None, rq_body = None\<rparr>)
         (new_Error ''Failed to parse request body: Unexpected token'')
       = Inr \<lparr>statusCode = 500, headers = error_headers,
              body = Inr (JObj [(''jsonrpc'', JStr ''2.0''),
                                (''error'', JObj [(''code'', JNum (- 32603)),
                                                  (''message'',
                                                   JStr ''Internal server error: Failed to parse request body: Unexpected token''),
                                                  (''data'',
                                                   JObj [(''stack'',
                                                          JStr ''Error: Failed to parse request body: Unexpected token''),
                                                         (''name'', JStr ''Error'')])]),
                                (''id'', JNull)])\<rparr>"
  by code_simp

section \<open>Properties of search and replace\<close>













end
